theory Spec2Isabelle
  imports Main
begin

section \<open>Python values, exceptions and the tabular data type\<close>

text \<open>
  The two gateways of \<^verbatim>\<open>etlstat.database\<close> (\<^verbatim>\<open>mysql.py\<close>, \<^verbatim>\<open>oracle.py\<close>) are embedded
  as functions in an exception-and-state style: a call takes the state and returns
  either \<open>Inl\<close> the raised exception or \<open>Inr\<close> the returned value, together with the
  state as it is at that moment.
\<close>

datatype exn =
    TypeError string
  | ValueError string
  | NotImplementedError string
  | KeyError string
  | AttributeError string
  | DatabaseError string
  | SubprocessError string
  | OSError string
  | OtherError string

text \<open>
  A value held in a frame: a \<^verbatim>\<open>str\<close>, an \<^verbatim>\<open>int\<close>, or any other object (a float, \<^verbatim>\<open>None\<close>,
  a timestamp), which is carried as the text that \<^verbatim>\<open>"{0}".format(value)\<close> yields for it.
\<close>

datatype cell = SCell string | ICell int | OCell string

text \<open>
  A \<^verbatim>\<open>pandas.DataFrame\<close> with its \<^verbatim>\<open>name\<close> attribute: the column labels with the name of
  each column's dtype, and the rows, each with its index label. Every row of a frame has
  one value per column.
\<close>

record dataframe =
  df_name :: string
  df_columns :: "(string \<times> string) list"
  df_rows :: "(int \<times> cell list) list"

definition labels :: "dataframe \<Rightarrow> string list" where
  "labels t = map fst (df_columns t)"

datatype pyval = PNone | PStr string | PInt int | PList "pyval list" | PFrame dataframe

text \<open>What \<^verbatim>\<open>engine.execute\<close> returns (a \<^verbatim>\<open>ResultProxy\<close>).\<close>

record result_proxy =
  rowcount :: int
  returns_rows :: bool
  rs_keys :: "string list"
  fetchall :: "exn + cell list list"

section \<open>Strings\<close>

fun startswith :: "string \<Rightarrow> string \<Rightarrow> bool" where
  "startswith s [] = True"
| "startswith [] (p # ps) = False"
| "startswith (c # cs) (p # ps) = (c = p \<and> startswith cs ps)"

text \<open>\<^verbatim>\<open>s.partition(sep)\<close> at the leftmost occurrence; \<open>None\<close> when \<open>sep\<close> does not occur.\<close>

fun partition_str :: "string \<Rightarrow> string \<Rightarrow> (string \<times> string) option" where
  "partition_str sep [] = (if sep = [] then Some ([], []) else None)"
| "partition_str sep (c # cs) =
     (if startswith (c # cs) sep then Some ([], drop (length sep) (c # cs))
      else (case partition_str sep cs of
              None \<Rightarrow> None
            | Some (a, b) \<Rightarrow> Some (c # a, b)))"

text \<open>\<^verbatim>\<open>s.split(sep)\<close> for a non-empty separator: the pieces between the occurrences.\<close>

function split_nonempty :: "string \<Rightarrow> string \<Rightarrow> string list" where
  "split_nonempty sep s =
     (if sep = [] then [s]
      else (case partition_str sep s of
              None \<Rightarrow> [s]
            | Some (a, b) \<Rightarrow> a # split_nonempty sep b))"
  by pat_completeness auto
termination
proof (relation "measure (\<lambda>(sep, s). length s)")
  show "wf (measure (\<lambda>(sep, s). length s))"
    by simp
next
  fix sep s :: string and x2 a b
  assume ne: "sep \<noteq> []" and p: "partition_str sep s = Some x2" and x: "(a, b) = x2"
  have "partition_str sep s = Some (a, b) \<Longrightarrow> length b < length s" for s a b
    using ne by (induction s arbitrary: a b) (auto split: if_splits option.splits)
  moreover from p x have "partition_str sep s = Some (a, b)"
    by simp
  ultimately show "((sep, b), sep, s) \<in> measure (\<lambda>(sep, s). length s)"
    by simp
qed

text \<open>\<^verbatim>\<open>str.split\<close> raises \<^verbatim>\<open>ValueError\<close> on an empty separator.\<close>

definition str_split :: "string \<Rightarrow> string \<Rightarrow> exn + string list" where
  "str_split s sep =
     (if sep = [] then Inl (ValueError ''empty separator'') else Inr (split_nonempty sep s))"

text \<open>Tuple unpacking of a list into two and into three names.\<close>

fun unpack2 :: "string list \<Rightarrow> exn + (string \<times> string)" where
  "unpack2 [a, b] = Inr (a, b)"
| "unpack2 [] = Inl (ValueError ''not enough values to unpack'')"
| "unpack2 [a] = Inl (ValueError ''not enough values to unpack'')"
| "unpack2 (a # b # c # r) = Inl (ValueError ''too many values to unpack'')"

fun unpack3 :: "string list \<Rightarrow> exn + (string \<times> string \<times> string)" where
  "unpack3 [a, b, c] = Inr (a, b, c)"
| "unpack3 (a # b # c # d # r) = Inl (ValueError ''too many values to unpack'')"
| "unpack3 r = Inl (ValueError ''not enough values to unpack'')"

text \<open>\<^verbatim>\<open>str(n)\<close> for an integer.\<close>

fun str_nat :: "nat \<Rightarrow> string" where
  "str_nat n =
     (if n < 10 then [''0123456789'' ! n]
      else str_nat (n div 10) @ [''0123456789'' ! (n mod 10)])"

definition str_int :: "int \<Rightarrow> string" where
  "str_int i = (if i < 0 then CHR ''-'' # str_nat (nat (- i)) else str_nat (nat i))"


definition squote :: string where
  "squote = [CHR 0x27]"

definition format_cell :: "cell \<Rightarrow> string" where
  "format_cell v = (case v of SCell x \<Rightarrow> x | ICell i \<Rightarrow> str_int i | OCell r \<Rightarrow> r)"

section \<open>The outside world\<close>

text \<open>
  The database server, the file system, the process environment and the logger are not
  code of the repository. The server is an opaque state \<open>'w\<close> on which the calls of the
  SQL toolkit act; every such call is recorded, with how it ended, in a trace. The file
  system is a map from paths to contents, with the paths that can be opened for writing
  (the directory exists and may be written to).
\<close>

datatype engine = Engine string

datatype call =
    CreateEngine string
  | Execute string
  | HasTable string
  | WriteFile string string
  | RemoveFile string
  | Connect
  | Begin
  | ConnExecute string "(string \<times> pyval) list"
  | Commit
  | Close
  | Popen "string list" "(string \<times> string) list"

datatype outcome = Returned | Raised exn

datatype log_record = LogInfo string | LogError exn

record 'w sys =
  world :: 'w
  files :: "string \<rightharpoonup> string"
  writable :: "string \<Rightarrow> bool"
  environ :: "(string \<times> string) list"
  trace :: "(call \<times> outcome) list"
  logged :: "log_record list"

definition outcome_of :: "exn + 'a \<Rightarrow> outcome" where
  "outcome_of r = (case r of Inl e \<Rightarrow> Raised e | Inr a \<Rightarrow> Returned)"

text \<open>A call of a collaborator: it acts on the world, and the trace records it.\<close>

definition call_out ::
  "call \<Rightarrow> ('w \<Rightarrow> (exn + 'a) \<times> 'w) \<Rightarrow> ('w, 'z) sys_scheme \<Rightarrow> (exn + 'a) \<times> ('w, 'z) sys_scheme" where
  "call_out c f s =
     (case f (world s) of
        (r, w') \<Rightarrow> (r, s\<lparr>world := w', trace := trace s @ [(c, outcome_of r)]\<rparr>))"

text \<open>Sequencing: an exception ends the computation with the state reached so far.\<close>

definition then_py ::
  "('s \<Rightarrow> (exn + 'a) \<times> 's) \<Rightarrow> ('a \<Rightarrow> 's \<Rightarrow> (exn + 'b) \<times> 's) \<Rightarrow> 's \<Rightarrow> (exn + 'b) \<times> 's" where
  "then_py m f s = (case m s of (Inl e, s') \<Rightarrow> (Inl e, s') | (Inr a, s') \<Rightarrow> f a s')"

definition ret :: "'a \<Rightarrow> 's \<Rightarrow> (exn + 'a) \<times> 's" where
  "ret a s = (Inr a, s)"

definition throw :: "exn \<Rightarrow> 's \<Rightarrow> (exn + 'a) \<times> 's" where
  "throw e s = (Inl e, s)"

definition lift :: "exn + 'a \<Rightarrow> 's \<Rightarrow> (exn + 'a) \<times> 's" where
  "lift r s = (r, s)"

definition sum_then :: "exn + 'a \<Rightarrow> ('a \<Rightarrow> exn + 'b) \<Rightarrow> exn + 'b" where
  "sum_then r f = (case r of Inl e \<Rightarrow> Inl e | Inr a \<Rightarrow> f a)"

text \<open>
  Writing a file, by \<^verbatim>\<open>open(path, 'w')\<close> with \<^verbatim>\<open>write\<close> and \<^verbatim>\<open>close\<close> or by
  \<^verbatim>\<open>DataFrame.to_csv(path, ...)\<close>: when the path cannot be opened the call raises
  \<^verbatim>\<open>FileNotFoundError\<close> or \<^verbatim>\<open>PermissionError\<close>, an \<^verbatim>\<open>OSError\<close>, and nothing is written.
\<close>

definition write_file :: "string \<Rightarrow> string \<Rightarrow> ('w, 'z) sys_scheme \<Rightarrow> (exn + unit) \<times> ('w, 'z) sys_scheme" where
  "write_file path txt s =
     (if writable s path
      then (Inr (), s\<lparr>files := (files s)(path \<mapsto> txt),
                       trace := trace s @ [(WriteFile path txt, Returned)]\<rparr>)
      else (Inl (OSError ''cannot open file for writing''),
            s\<lparr>trace := trace s @ [(WriteFile path txt, Raised (OSError ''cannot open file for writing''))]\<rparr>))"

text \<open>\<^verbatim>\<open>os.remove(path)\<close> raises \<^verbatim>\<open>FileNotFoundError\<close>, an \<^verbatim>\<open>OSError\<close>, when there is no such file.\<close>

definition os_remove :: "string \<Rightarrow> ('w, 'z) sys_scheme \<Rightarrow> (exn + unit) \<times> ('w, 'z) sys_scheme" where
  "os_remove path s =
     (case files s path of
        None \<Rightarrow> (Inl (OSError ''No such file or directory''),
                  s\<lparr>trace := trace s @ [(RemoveFile path, Raised (OSError ''No such file or directory''))]\<rparr>)
      | Some txt \<Rightarrow> (Inr (),
                  s\<lparr>files := (files s)(path := None), trace := trace s @ [(RemoveFile path, Returned)]\<rparr>))"

section \<open>The generic SQL gateway: class \<^verbatim>\<open>MySQL\<close>\<close>

text \<open>
  The class attributes \<^verbatim>\<open>connected\<close> and \<^verbatim>\<open>engine\<close> are shared by all calls; they extend
  the state. The SQL toolkit and pandas are parameters: \<^verbatim>\<open>create_engine\<close>,
  \<^verbatim>\<open>engine.execute\<close>, \<^verbatim>\<open>engine.dialect.has_table\<close>, the text \<^verbatim>\<open>to_csv\<close> writes (for a
  frame, a separator and whether non-numeric fields are quoted) and the text that Python
  prints for \<^verbatim>\<open>float(i)\<close>, the float nearest to an integer.
\<close>

record 'w mysql = "'w sys" +
  connected :: bool
  engine :: "engine option"

record 'w mysql_api =
  create_engine :: "string \<Rightarrow> 'w \<Rightarrow> (exn + engine) \<times> 'w"
  engine_execute :: "engine \<Rightarrow> string \<Rightarrow> 'w \<Rightarrow> (exn + result_proxy) \<times> 'w"
  has_table :: "engine \<Rightarrow> string \<Rightarrow> 'w \<Rightarrow> (exn + bool) \<times> 'w"
  to_csv :: "dataframe \<Rightarrow> string \<Rightarrow> bool \<Rightarrow> string"
  float_repr :: "int \<Rightarrow> string"

definition conversion_map :: "string \<rightharpoonup> string" where
  "conversion_map =
     [''object'' \<mapsto> ''VARCHAR(255)'', ''int64'' \<mapsto> ''INT'', ''float64'' \<mapsto> ''DECIMAL'']"

text \<open>
  Lines 36 to 39 of \<^verbatim>\<open>_connect\<close>: four splits, each unpacked into a fixed number of
  names, in the order of the source.
\<close>

definition parse_conn_string ::
  "string \<Rightarrow> exn + (string \<times> string \<times> string \<times> string \<times> string \<times> string)" where
  "parse_conn_string conn_string =
     sum_then (sum_then (str_split conn_string ''://'') unpack2) (\<lambda>(connector, conn_data).
     sum_then (sum_then (str_split conn_data '':'') unpack3) (\<lambda>(username, link, port_db).
     sum_then (sum_then (str_split port_db ''/'') unpack2) (\<lambda>(port, db).
     sum_then (sum_then (str_split link ''@'') unpack2) (\<lambda>(password, ip).
     Inr (connector, username, password, ip, db, port)))))"

text \<open>
  \<^verbatim>\<open>MySQL._connect\<close>. The test \<^verbatim>\<open>conn_string is not ''\<close> compares with the interned
  empty string and is read as \<^verbatim>\<open>conn_string != ''\<close>. The string \<^verbatim>\<open>url_str\<close> that the source
  formats is not used afterwards.
\<close>

definition connect :: "'w mysql_api \<Rightarrow> pyval \<Rightarrow> 'w mysql \<Rightarrow> (exn + unit) \<times> 'w mysql" where
  "connect api conn_string s =
     (if connected s = False then
        (case (case conn_string of
                 PStr cs \<Rightarrow>
                   if cs \<noteq> [] then sum_then (parse_conn_string cs) (\<lambda>p. Inr (cs, p))
                   else Inl (TypeError ''conn_string must be a string connector.'')
               | _ \<Rightarrow> Inl (TypeError ''conn_string must be a string connector.'')) of
           Inl e \<Rightarrow> (Inl e, s)
         | Inr (cs, connector, username, password, ip, db, port) \<Rightarrow>
             if connector \<noteq> ''mysql+mysqlconnector''
             then (Inl (NotImplementedError ''Engine type not supported.''), s)
             else (case call_out (CreateEngine cs) (create_engine api cs) s of
                     (Inl e, s') \<Rightarrow> (Inl e, s')
                   | (Inr eng, s') \<Rightarrow> (Inr (), s'\<lparr>engine := Some eng, connected := True\<rparr>)))
      else (Inr (), s))"

text \<open>\<^verbatim>\<open>cls.engine.execute(sql)\<close>; on \<^verbatim>\<open>None\<close> the attribute lookup raises.\<close>

definition engine_exec :: "'w mysql_api \<Rightarrow> string \<Rightarrow> 'w mysql \<Rightarrow> (exn + result_proxy) \<times> 'w mysql" where
  "engine_exec api sql s =
     (case engine s of
        None \<Rightarrow> (Inl (AttributeError ''NoneType object has no attribute execute''), s)
      | Some eng \<Rightarrow> call_out (Execute sql) (engine_execute api eng sql) s)"

text \<open>\<^verbatim>\<open>MySQL.check_for_table\<close>.\<close>

definition check_for_table :: "'w mysql_api \<Rightarrow> string \<Rightarrow> pyval \<Rightarrow> 'w mysql \<Rightarrow> (exn + bool) \<times> 'w mysql" where
  "check_for_table api table conn_string =
     then_py (connect api conn_string) (\<lambda>_ s.
       case engine s of
         None \<Rightarrow> (Inl (AttributeError ''NoneType object has no attribute dialect''), s)
       | Some eng \<Rightarrow> call_out (HasTable table) (has_table api eng table) s)"

text \<open>\<^verbatim>\<open>MySQL.create\<close>: the loop over the labels, then the statement.\<close>

fun create_columns :: "(string \<times> string) list \<Rightarrow> string \<Rightarrow> exn + string" where
  "create_columns [] sql = Inr sql"
| "create_columns ((label, dtype) # cols) sql =
     (case conversion_map dtype of
        None \<Rightarrow> Inl (KeyError dtype)
      | Some ty \<Rightarrow> create_columns cols (sql @ label @ '' '' @ ty @ '', ''))"

definition create_sql :: "pyval \<Rightarrow> exn + string" where
  "create_sql table =
     (case table of
        PFrame t \<Rightarrow>
          sum_then (create_columns (df_columns t) (''CREATE TABLE'' @ '' '' @ df_name t @ '' (''))
            (\<lambda>sql. Inr (take (length sql - 2) sql @ '')''))
      | _ \<Rightarrow> Inr ''CREATE TABLE'')"

definition create :: "'w mysql_api \<Rightarrow> pyval \<Rightarrow> pyval \<Rightarrow> 'w mysql \<Rightarrow> (exn + unit) \<times> 'w mysql" where
  "create api table conn_string =
     then_py (connect api conn_string) (\<lambda>_.
     then_py (lift (create_sql table)) (\<lambda>sql.
     then_py (engine_exec api sql) (\<lambda>rts. ret ())))"


text \<open>
  The \<^verbatim>\<open>conditions\<close> argument of \<^verbatim>\<open>select\<close> and \<^verbatim>\<open>delete\<close>: a string, a list of strings, or
  anything else.
\<close>

datatype conditions = CondStr string | CondList "string list" | CondOther

fun select_labels :: "string list \<Rightarrow> string \<Rightarrow> string" where
  "select_labels [] sql = sql"
| "select_labels (label # r) sql = select_labels r (sql @ '' '' @ label @ '','')"

fun select_conditions :: "string list \<Rightarrow> string \<Rightarrow> string" where
  "select_conditions [] sql = sql"
| "select_conditions (condition # r) sql = select_conditions r (sql @ '' '' @ condition @ '','')"

definition select_from :: "pyval \<Rightarrow> exn + string" where
  "select_from table =
     (case table of
        PStr name \<Rightarrow> Inr (''SELECT'' @ '' '' @ ''*'' @ '' FROM '' @ name)
      | PFrame t \<Rightarrow> Inr (butlast (select_labels (labels t) ''SELECT'') @ '' FROM '' @ df_name t)
      | _ \<Rightarrow> Inl (TypeError ''table must be a string or DataFrame.''))"

definition select_where :: "conditions \<Rightarrow> string \<Rightarrow> string" where
  "select_where conds sql =
     (case conds of
        CondStr c \<Rightarrow> if c \<noteq> [] then sql @ '' WHERE '' @ c else sql
      | CondList cs \<Rightarrow>
          if length cs > 0 then butlast (select_conditions cs (sql @ '' WHERE'')) else sql
      | CondOther \<Rightarrow> sql)"

text \<open>
  \<^verbatim>\<open>DataFrame(rows)\<close> followed by \<^verbatim>\<open>df.columns = keys\<close>: the frame built from the fetched
  rows has as many columns as a row has values (none when there is no row), and pandas
  raises \<^verbatim>\<open>ValueError\<close> when the number of new labels differs. The rows are indexed from
  0; the dtype that pandas infers for a column is not tracked, every column of such a frame
  is recorded as \<^verbatim>\<open>object\<close>. The frame has no \<^verbatim>\<open>name\<close>.
\<close>

definition frame_of_result :: "cell list list \<Rightarrow> string list \<Rightarrow> exn + dataframe" where
  "frame_of_result fetched ks =
     (if length ks \<noteq> (case fetched of [] \<Rightarrow> 0 | r # _ \<Rightarrow> length r)
      then Inl (ValueError ''Length mismatch'')
      else Inr \<lparr>df_name = [], df_columns = map (\<lambda>k. (k, ''object'')) ks,
                df_rows = zip (map int [0 ..< length fetched]) fetched\<rparr>)"

text \<open>\<^verbatim>\<open>MySQL.select\<close>.\<close>

definition select ::
  "'w mysql_api \<Rightarrow> pyval \<Rightarrow> pyval \<Rightarrow> conditions \<Rightarrow> 'w mysql \<Rightarrow> (exn + dataframe) \<times> 'w mysql" where
  "select api table conn_string conds =
     then_py (connect api conn_string) (\<lambda>_.
     then_py (lift (select_from table)) (\<lambda>sql.
     then_py (engine_exec api (select_where conds sql)) (\<lambda>rts.
     then_py (lift (fetchall rts)) (\<lambda>fetched.
     lift (frame_of_result fetched (rs_keys rts))))))"

text \<open>
  The rows as \<^verbatim>\<open>table.iterrows()\<close> and \<^verbatim>\<open>table.values\<close> hand them out. Both go through one
  array for the whole frame: when every column is numeric (\<^verbatim>\<open>int64\<close>, \<^verbatim>\<open>float64\<close>) and one
  of them is \<^verbatim>\<open>float64\<close>, the array is of floats and every integer comes out as a float;
  in any other frame the values come out as they are held.
\<close>

definition upcast :: "dataframe \<Rightarrow> bool" where
  "upcast t \<longleftrightarrow>
     list_all (\<lambda>(label, dtype). dtype = ''int64'' \<or> dtype = ''float64'') (df_columns t) \<and>
     list_ex (\<lambda>(label, dtype). dtype = ''float64'') (df_columns t)"

definition row_view :: "'w mysql_api \<Rightarrow> dataframe \<Rightarrow> cell list \<Rightarrow> cell list" where
  "row_view api t row =
     (if upcast t
      then map (\<lambda>v. case v of ICell i \<Rightarrow> OCell (float_repr api i) | _ \<Rightarrow> v) row
      else row)"

definition iterrows :: "'w mysql_api \<Rightarrow> dataframe \<Rightarrow> (int \<times> cell list) list" where
  "iterrows api t = map (\<lambda>(index, row). (index, row_view api t row)) (df_rows t)"

definition frame_values :: "'w mysql_api \<Rightarrow> dataframe \<Rightarrow> cell list list" where
  "frame_values api t = map (\<lambda>(index, row). row_view api t row) (df_rows t)"

text \<open>
  \<^verbatim>\<open>MySQL.insert\<close>. \<^verbatim>\<open>index in rows\<close> for the optional list of row indices; on a value
  that is no container the test raises, and a frame contains its column labels only.
\<close>

fun row_selected :: "int \<Rightarrow> pyval \<Rightarrow> exn + bool" where
  "row_selected i PNone = Inr True"
| "row_selected i (PList xs) = Inr (PInt i \<in> set xs)"
| "row_selected i (PFrame t) = Inr False"
| "row_selected i (PStr x) = Inl (TypeError ''in <string> requires string as left operand, not int'')"
| "row_selected i (PInt n) = Inl (TypeError ''argument of type int is not iterable'')"

fun insert_labels :: "string list \<Rightarrow> string \<Rightarrow> string" where
  "insert_labels [] sql = sql"
| "insert_labels (label # r) sql = insert_labels r (sql @ label @ '', '')"

definition insert_head :: "dataframe \<Rightarrow> string" where
  "insert_head t =
     (let sql = insert_labels (labels t) (''INSERT INTO'' @ '' '' @ df_name t @ '' ('')
      in take (length sql - 2) sql @ '')'')"

fun insert_values :: "cell list \<Rightarrow> string \<Rightarrow> string" where
  "insert_values [] sql_insert = sql_insert"
| "insert_values (v # r) sql_insert =
     insert_values r
       (case v of
          SCell x \<Rightarrow> sql_insert @ squote @ x @ squote @ '', ''
        | _ \<Rightarrow> sql_insert @ format_cell v @ '', '')"

definition insert_statement :: "string \<Rightarrow> cell list \<Rightarrow> string" where
  "insert_statement sql row =
     (let sql_insert = insert_values row (sql @ '' VALUES ('')
      in take (length sql_insert - 2) sql_insert @ '')'')"

fun insert_loop ::
  "'w mysql_api \<Rightarrow> string \<Rightarrow> pyval \<Rightarrow> (int \<times> cell list) list \<Rightarrow> int \<Rightarrow> 'w mysql
     \<Rightarrow> (exn + int) \<times> 'w mysql" where
  "insert_loop api sql rows [] rows_matched s = (Inr rows_matched, s)"
| "insert_loop api sql rows ((index, row) # rest) rows_matched s =
     (case row_selected index rows of
        Inl e \<Rightarrow> (Inl e, s)
      | Inr sel \<Rightarrow>
          if sel then
            (case engine_exec api (insert_statement sql row) s of
               (Inl e, s') \<Rightarrow> (Inl e, s')
             | (Inr rts, s') \<Rightarrow> insert_loop api sql rows rest (rows_matched + rowcount rts) s')
          else insert_loop api sql rows rest rows_matched s)"

definition insert_tbl ::
  "'w mysql_api \<Rightarrow> pyval \<Rightarrow> pyval \<Rightarrow> pyval \<Rightarrow> 'w mysql \<Rightarrow> (exn + int) \<times> 'w mysql" where
  "insert_tbl api table conn_string rows =
     then_py (connect api conn_string) (\<lambda>_.
       case table of
         PFrame t \<Rightarrow>
           then_py (check_for_table api (df_name t) (PStr [])) (\<lambda>exists.
           then_py (if \<not> exists then create api table (PStr []) else ret ()) (\<lambda>_.
           insert_loop api (insert_head t) rows (iterrows api t) 0))
       | _ \<Rightarrow> throw (TypeError ''table must be a DataFrame.''))"

text \<open>\<^verbatim>\<open>MySQL.update\<close>: per row, the assignments and the conditions, column by column.\<close>

fun update_parts ::
  "pyval list \<Rightarrow> (string \<times> cell) list \<Rightarrow> string \<Rightarrow> string \<Rightarrow> string \<times> string" where
  "update_parts index [] sql_updates sql_conditions = (sql_updates, sql_conditions)"
| "update_parts index ((label, v) # r) sql_updates sql_conditions =
     (if PStr label \<notin> set index then
        update_parts index r
          (case v of
             SCell x \<Rightarrow> sql_updates @ '' '' @ label @ ''='' @ squote @ x @ squote @ '',''
           | _ \<Rightarrow> sql_updates @ '' '' @ label @ ''='' @ format_cell v @ '','')
          sql_conditions
      else
        update_parts index r sql_updates
          (case v of
             SCell x \<Rightarrow> sql_conditions @ '' '' @ label @ ''='' @ squote @ x @ squote @ '' and''
           | _ \<Rightarrow> sql_conditions @ '' '' @ label @ ''='' @ format_cell v @ '' and''))"

definition update_statement :: "dataframe \<Rightarrow> pyval list \<Rightarrow> cell list \<Rightarrow> string" where
  "update_statement t index row =
     (case update_parts index (zip (labels t) row) [] [] of
        (sql_updates, sql_conditions) \<Rightarrow>
          (let sql = ''UPDATE '' @ df_name t @ '' SET'' @ butlast sql_updates
           in if length sql_conditions > 1
              then sql @ '' WHERE'' @ take (length sql_conditions - 4) sql_conditions
              else sql))"

fun update_loop ::
  "'w mysql_api \<Rightarrow> dataframe \<Rightarrow> pyval list \<Rightarrow> cell list list \<Rightarrow> int \<Rightarrow> 'w mysql
     \<Rightarrow> (exn + int) \<times> 'w mysql" where
  "update_loop api t index [] rows_matched s = (Inr rows_matched, s)"
| "update_loop api t index (row # rest) rows_matched s =
     (case engine_exec api (update_statement t index row) s of
        (Inl e, s') \<Rightarrow> (Inl e, s')
      | (Inr rts, s') \<Rightarrow> update_loop api t index rest (rows_matched + rowcount rts) s')"

definition update_tbl ::
  "'w mysql_api \<Rightarrow> pyval \<Rightarrow> pyval \<Rightarrow> pyval \<Rightarrow> 'w mysql \<Rightarrow> (exn + int) \<times> 'w mysql" where
  "update_tbl api table conn_string index =
     then_py (connect api conn_string) (\<lambda>_.
       case table of
         PFrame t \<Rightarrow>
           (case index of
              PList ix \<Rightarrow> update_loop api t ix (frame_values api t) 0
            | _ \<Rightarrow> ret 0)
       | _ \<Rightarrow> throw (TypeError ''table must be a DataFrame.''))"

text \<open>\<^verbatim>\<open>MySQL.bulk_insert\<close>.\<close>

definition csv_path :: string where
  "csv_path = ''temp.csv''"

definition load_sql :: "dataframe \<Rightarrow> string" where
  "load_sql t =
     ''LOAD DATA LOCAL INFILE '' @ squote @ csv_path @ squote @ '' INTO TABLE '' @ df_name t
       @ '' FIELDS TERMINATED BY '' @ squote @ '';'' @ squote"

definition bulk_insert ::
  "'w mysql_api \<Rightarrow> pyval \<Rightarrow> pyval \<Rightarrow> 'w mysql \<Rightarrow> (exn + int) \<times> 'w mysql" where
  "bulk_insert api table conn_string =
     then_py (connect api conn_string) (\<lambda>_.
       case table of
         PFrame t \<Rightarrow>
           then_py (write_file csv_path (to_csv api t '';'' False)) (\<lambda>_.
           then_py (check_for_table api (df_name t) (PStr [])) (\<lambda>exists.
           then_py (if \<not> exists then create api table (PStr []) else ret ()) (\<lambda>_.
           then_py (engine_exec api (load_sql t)) (\<lambda>rts.
           then_py (os_remove csv_path) (\<lambda>_.
           ret (rowcount rts))))))
       | _ \<Rightarrow> throw (TypeError ''table must be a DataFrame.''))"

text \<open>\<^verbatim>\<open>MySQL.delete\<close>, for a table given by its name.\<close>

definition delete ::
  "'w mysql_api \<Rightarrow> string \<Rightarrow> pyval \<Rightarrow> conditions \<Rightarrow> 'w mysql \<Rightarrow> (exn + int) \<times> 'w mysql" where
  "delete api table conn_string conds =
     then_py (connect api conn_string) (\<lambda>_.
     then_py (engine_exec api
                (case conds of
                   CondStr c \<Rightarrow>
                     if c \<noteq> [] then ''DELETE FROM '' @ table @ '' WHERE '' @ c
                     else ''DELETE FROM '' @ table
                 | _ \<Rightarrow> ''DELETE FROM '' @ table)) (\<lambda>rts.
     ret (rowcount rts)))"


section \<open>The schema-aware gateway: class \<^verbatim>\<open>Oracle\<close>\<close>


record 'w oracle_api =
  engine_connect :: "engine \<Rightarrow> 'w \<Rightarrow> (exn + unit) \<times> 'w"
  connection_begin :: "'w \<Rightarrow> (exn + unit) \<times> 'w"
  connection_execute :: "string \<Rightarrow> (string \<times> pyval) list \<Rightarrow> 'w \<Rightarrow> (exn + result_proxy) \<times> 'w"
  trans_commit :: "'w \<Rightarrow> (exn + unit) \<times> 'w"
  connection_close :: "'w \<Rightarrow> (exn + unit) \<times> 'w"
  frame_to_csv :: "dataframe \<Rightarrow> string \<Rightarrow> bool \<Rightarrow> string"
  shlex_split :: "string \<Rightarrow> exn + string list"
  subprocess_popen :: "string list \<Rightarrow> (string \<times> string) list \<Rightarrow> 'w \<Rightarrow> (exn + unit) \<times> 'w"



definition log_error :: "exn \<Rightarrow> ('w, 'z) sys_scheme \<Rightarrow> (exn + unit) \<times> ('w, 'z) sys_scheme" where
  "log_error e s = (Inr (), s\<lparr>logged := logged s @ [LogError e]\<rparr>)"






text \<open>\<^verbatim>\<open>Oracle.load_data\<close>. Its arguments, named as in the source.\<close>

record load_args =
  arg_user :: string
  arg_password :: string
  arg_host :: string
  arg_port :: string
  arg_service_name :: string
  arg_schema :: string
  arg_table :: dataframe
  arg_output_path :: string
  arg_os_path :: string
  arg_os_ld_library_path :: string
  arg_mode :: string

fun str_join :: "string \<Rightarrow> string list \<Rightarrow> string" where
  "str_join sep [] = []"
| "str_join sep [x] = x"
| "str_join sep (x # y # r) = x @ sep @ str_join sep (y # r)"

text \<open>Assignment to a key of a dictionary: an existing key keeps its place.\<close>

fun dict_set :: "string \<Rightarrow> string \<Rightarrow> (string \<times> string) list \<Rightarrow> (string \<times> string) list" where
  "dict_set k v [] = [(k, v)]"
| "dict_set k v ((k', v') # r) = (if k' = k then (k, v) # r else (k', v') # dict_set k v r)"

definition newline :: string where
  "newline = [CHR 0x0A]"

definition dquote :: string where
  "dquote = [CHR 0x22]"

definition ctl_header :: "load_args \<Rightarrow> string" where
  "ctl_header a =
     ''LOAD DATA'' @ newline @
     ''CHARACTERSET UTF8'' @ newline @
     ''INFILE '' @ squote @ arg_output_path a @ df_name (arg_table a) @ ''.dat'' @ squote @ newline @
     arg_mode a @ newline @
     ''INTO TABLE '' @ arg_schema a @ ''.'' @ df_name (arg_table a) @ newline @
     ''FIELDS TERMINATED BY '' @ squote @ '';'' @ squote @ '' '' @
     ''OPTIONALLY ENCLOSED BY '' @ squote @ dquote @ squote @ newline @
     ''TRAILING NULLCOLS'' @ newline @
     ''('' @ str_join '','' (labels (arg_table a)) @ '')''"

definition loader_env :: "load_args \<Rightarrow> (string \<times> string) list \<Rightarrow> (string \<times> string) list" where
  "loader_env a env =
     dict_set ''LD_LIBRARY_PATH'' (arg_os_ld_library_path a) (dict_set ''PATH'' (arg_os_path a) env)"

definition os_command :: "load_args \<Rightarrow> string" where
  "os_command a =
     (''sqlldr '' @ arg_user a @ ''/'' @ arg_password a @ ''@'' @ arg_host a @ '':'' @ arg_port a
        @ ''/'' @ arg_service_name a @ '' '') @
     (''control='' @ squote @ arg_output_path a @ df_name (arg_table a) @ ''.ctl'' @ squote @
      '' log='' @ squote @ arg_output_path a @ df_name (arg_table a) @ ''.log'' @ squote @
      '' bad='' @ squote @ arg_output_path a @ df_name (arg_table a) @ ''.bad'' @ squote)"

text \<open>
  The \<^verbatim>\<open>try\<close> statement around \<^verbatim>\<open>subprocess.Popen\<close>: only \<^verbatim>\<open>subprocess.SubprocessError\<close> is
  caught, and then logged; the \<^verbatim>\<open>Popen\<close> object is dropped.
\<close>

definition popen_try ::
  "'w oracle_api \<Rightarrow> string list \<Rightarrow> (string \<times> string) list \<Rightarrow> 'w sys \<Rightarrow> (exn + unit) \<times> 'w sys" where
  "popen_try api args env s =
     (case call_out (Popen args env) (subprocess_popen api args env) s of
        (Inl (SubprocessError m), s') \<Rightarrow> log_error (SubprocessError m) s'
      | (Inl sproc_error, s') \<Rightarrow> (Inl sproc_error, s')
      | (Inr u, s') \<Rightarrow> (Inr (), s'))"

definition load_data :: "'w oracle_api \<Rightarrow> load_args \<Rightarrow> 'w sys \<Rightarrow> (exn + unit) \<times> 'w sys" where
  "load_data api a =
     then_py (write_file (arg_output_path a @ df_name (arg_table a) @ ''.ctl'') (ctl_header a)) (\<lambda>_.
     then_py (write_file (arg_output_path a @ df_name (arg_table a) @ ''.dat'')
                (frame_to_csv api (arg_table a) '';'' True)) (\<lambda>_ s.
       (let env = loader_env a (environ s) in
        then_py (lift (shlex_split api (os_command a))) (\<lambda>args.
        popen_try api args env) s)))"

section \<open>A test engine\<close>

text \<open>
  A small server for concrete runs: its state is the list of the names of its tables.
  \<^verbatim>\<open>CREATE TABLE name ...\<close> adds a table and reports no row; every other statement
  reports one row and returns no result set.
\<close>

definition test_result :: "int \<Rightarrow> result_proxy" where
  "test_result n = \<lparr>rowcount = n, returns_rows = False, rs_keys = [], fetchall = Inr []\<rparr>"

definition test_api :: "string list mysql_api" where
  "test_api =
     \<lparr>create_engine = (\<lambda>url w. (Inr (Engine url), w)),
      engine_execute = (\<lambda>eng sql w.
        if startswith sql ''CREATE TABLE ''
        then (Inr (test_result 0), takeWhile (\<lambda>c. c \<noteq> CHR '' '') (drop 13 sql) # w)
        else (Inr (test_result 1), w)),
      has_table = (\<lambda>eng name w. (Inr (name \<in> set w), w)),
      to_csv = (\<lambda>t sep quoted.
        concat (map (\<lambda>(i, row). str_join sep (map format_cell row) @ newline) (df_rows t))),
      float_repr = (\<lambda>i. str_int i @ ''.0'')\<rparr>"

definition test_url :: string where
  "test_url = ''mysql+mysqlconnector://user:pw@127.0.0.1:3306/testdb''"

definition fresh :: "string list mysql" where
  "fresh = \<lparr>world = [], files = Map.empty, writable = (\<lambda>path. True), environ = [],
            trace = [], logged = [],
            connected = False, engine = None\<rparr>"

definition linked :: "string list mysql" where
  "linked = \<lparr>world = [''t''], files = Map.empty, writable = (\<lambda>path. True), environ = [],
             trace = [], logged = [],
             connected = True, engine = Some (Engine test_url)\<rparr>"

text \<open>A frame with two columns and two rows, for concrete runs.\<close>

definition people :: dataframe where
  "people = \<lparr>df_name = ''t'',
              df_columns = [(''id'', ''int64''), (''name'', ''object'')],
              df_rows = [(0, [ICell 1, SCell ''a'']), (1, [ICell 2, SCell ''b''])]\<rparr>"


text \<open>The state after a first \<^verbatim>\<open>insert\<close> of that frame on a fresh gateway.\<close>

definition once :: "string list mysql" where
  "once = snd (insert_tbl test_api (PFrame people) (PStr test_url) PNone fresh)"

text \<open>
  A test double of the toolkit for the schema-aware gateway. Every call returns; a
  statement returns one row of two columns. The command line is cut at blanks with the
  quotes taken off, and the loader is found only on the search path
  \<^verbatim>\<open>/opt/oracle/instantclient_12_2\<close>: with any other \<^verbatim>\<open>PATH\<close> \<^verbatim>\<open>Popen\<close> raises
  \<^verbatim>\<open>FileNotFoundError\<close>, an \<^verbatim>\<open>OSError\<close>. Single calls are overridden where a run needs it.
\<close>

definition one_row :: result_proxy where
  "one_row = \<lparr>rowcount = 1, returns_rows = True, rs_keys = [''id'', ''column1''],
              fetchall = Inr [[ICell 1, SCell ''x'']]\<rparr>"



definition ora_ok :: "unit oracle_api" where
  "ora_ok =
     \<lparr>engine_connect = (\<lambda>eng w. (Inr (), w)),
      connection_begin = (\<lambda>w. (Inr (), w)),
      connection_execute = (\<lambda>sql kwargs w. (Inr one_row, w)),
      trans_commit = (\<lambda>w. (Inr (), w)),
      connection_close = (\<lambda>w. (Inr (), w)),
      frame_to_csv = (\<lambda>t sep quoted.
        concat (map (\<lambda>(i, row).
          str_join sep (map (\<lambda>v. case v of SCell x \<Rightarrow> if quoted then dquote @ x @ dquote else x
                                    | _ \<Rightarrow> format_cell v) row) @ newline) (df_rows t))),
      shlex_split = (\<lambda>cmd. Inr (map (filter (\<lambda>c. c \<noteq> CHR 0x27)) (split_nonempty '' '' cmd))),
      subprocess_popen = (\<lambda>args env w.
        if map_of env ''PATH'' = Some ''/opt/oracle/instantclient_12_2'' then (Inr (), w)
        else (Inl (OSError ''No such file or directory: sqlldr''), w))\<rparr>"

text \<open>A machine on which only \<^verbatim>\<open>/tmp/\<close> can be written to.\<close>

definition start :: "unit sys" where
  "start = \<lparr>world = (), files = Map.empty, writable = (\<lambda>path. startswith path ''/tmp/''),
            environ = [(''HOME'', ''/root''), (''PATH'', ''/usr/bin'')], trace = [], logged = []\<rparr>"


text \<open>The arguments of a load of the two-row frame, as the repository's test passes them.\<close>

definition demo_load :: load_args where
  "demo_load = \<lparr>arg_user = ''test'', arg_password = ''password'', arg_host = ''localhost'',
                arg_port = ''1521'', arg_service_name = ''xe'', arg_schema = ''test'',
                arg_table = people, arg_output_path = ''/tmp/'',
                arg_os_path = ''/opt/oracle/instantclient_12_2'',
                arg_os_ld_library_path = ''/opt/oracle/instantclient_12_2'',
                arg_mode = ''APPEND''\<rparr>"

section \<open>The descriptor format of the specification\<close>

text \<open>
  The specification gives the format of a connection descriptor as
  \<^verbatim>\<open><protocol>://<user>:<password>@<host>:<port>/<database>\<close>. A string has this form
  with protocol \<open>p\<close> when it can be cut into such parts.
\<close>

definition descriptor_form :: "string \<Rightarrow> string \<Rightarrow> bool" where
  "descriptor_form p d \<longleftrightarrow>
     (\<exists>u pw h po db. d = p @ ''://'' @ u @ '':'' @ pw @ ''@'' @ h @ '':'' @ po @ ''/'' @ db)"

section \<open>The tables and statements of the specification\<close>


text \<open>
  The specification's wording of \<^verbatim>\<open>insert\<close>: a text value is written in single quotes and
  any other value as it prints; the statement for a row is
  \<^verbatim>\<open>INSERT INTO <name> (<cols>) VALUES (<vals>)\<close> with labels and values separated by a comma
  and a blank; the rows taken are all of them, or those whose index is in the given list.
  Statements are executed one after the other, up to the first that raises.
\<close>

definition sql_literal :: "cell \<Rightarrow> string" where
  "sql_literal v = (case v of SCell x \<Rightarrow> squote @ x @ squote | _ \<Rightarrow> format_cell v)"




section \<open>Properties of the generic SQL gateway\<close>

lemma connect_connected: "connected s \<Longrightarrow> connect api conn_string s = (Inr (), s)"
  by (simp add: connect_def)

lemma connect_returns_connected:
  "connect api conn_string s = (Inr u, s1) \<Longrightarrow> connected s1"
  by (auto simp: connect_def call_out_def split: if_splits sum.splits prod.splits pyval.splits)

text \<open>
  C8. \<^verbatim>\<open>_connect\<close> is idempotent. Called on a connected gateway it returns at once, whatever
  the descriptor is (a string of any shape or no string at all): the state, and with it
  the engine handle, the flag and the trace of toolkit calls, is the one it was called on,
  so the descriptor was neither parsed nor handed to \<^verbatim>\<open>create_engine\<close>. In particular a
  second call after a first one that returned changes nothing.
\<close>

theorem connect_idempotent:
  "(connected s \<longrightarrow> connect api d s = (Inr (), s)) \<and>
   (connect api d1 s = (Inr (), s1) \<longrightarrow> connect api d2 s1 = (Inr (), s1))"
  using connect_connected connect_returns_connected by blast

section \<open>Splitting a descriptor\<close>

lemma startswith_iff: "startswith s p \<longleftrightarrow> (\<exists>r. s = p @ r)"
  by (induction s p rule: startswith.induct) auto

lemma startswith_drop: "startswith s p \<Longrightarrow> s = p @ drop (length p) s"
  by (auto simp: startswith_iff)

lemma partition_str_Some:
  "partition_str sep s = Some (a, b) \<Longrightarrow> s = a @ sep @ b"
proof (induction s arbitrary: a b)
  case Nil
  then show ?case by (simp split: if_splits)
next
  case (Cons c cs)
  show ?case
  proof (cases "startswith (c # cs) sep")
    case True
    with Cons.prems have "a = []" "b = drop (length sep) (c # cs)" by auto
    with startswith_drop[OF True] show ?thesis by simp
  next
    case False
    with Cons.prems obtain a' where "partition_str sep cs = Some (a', b)" "a = c # a'"
      by (auto split: option.splits)
    with Cons.IH show ?thesis by simp
  qed
qed

lemma partition_str_None:
  "partition_str sep s = None \<Longrightarrow> s \<noteq> x @ sep @ y"
proof (induction s arbitrary: x)
  case Nil
  then show ?case by (auto split: if_splits)
next
  case (Cons c cs)
  from Cons.prems have ns: "\<not> startswith (c # cs) sep" and n: "partition_str sep cs = None"
    by (auto split: if_splits option.splits)
  show ?case
  proof (cases x)
    case Nil
    with ns show ?thesis by (auto simp: startswith_iff)
  next
    case (Cons x1 xs)
    with Cons.IH[OF n, of xs] show ?thesis by auto
  qed
qed

lemma partition_str_leftmost:
  "partition_str sep s = Some (a, b) \<Longrightarrow> s = x @ sep @ y \<Longrightarrow> length a \<le> length x"
proof (induction s arbitrary: a x)
  case Nil
  then show ?case by (auto split: if_splits)
next
  case (Cons c cs)
  show ?case
  proof (cases "startswith (c # cs) sep")
    case True
    with Cons.prems(1) have "a = []" by simp
    then show ?thesis by simp
  next
    case False
    with Cons.prems(1) obtain a' where p: "partition_str sep cs = Some (a', b)" and a: "a = c # a'"
      by (auto split: option.splits)
    show ?thesis
    proof (cases x)
      case Nil
      with Cons.prems(2) False show ?thesis by (auto simp: startswith_iff)
    next
      case (Cons x1 xs)
      with Cons.prems(2) have "cs = xs @ sep @ y" by simp
      from Cons.IH[OF p this] a Cons show ?thesis by simp
    qed
  qed
qed

lemma split_two:
  assumes "split_nonempty sep s = [a, b]" "sep \<noteq> []"
  shows "partition_str sep s = Some (a, b) \<and> partition_str sep b = None"
proof -
  from assms obtain b' where p: "partition_str sep s = Some (a, b')" and r: "split_nonempty sep b' = [b]"
    by (auto split: option.splits)
  from r assms(2) have "partition_str sep b' = None" and "b' = b"
    by (auto split: option.splits)
  with p show ?thesis by blast
qed

lemma split_three:
  assumes "split_nonempty sep s = [a, b, c]" "sep \<noteq> []"
  shows "s = a @ sep @ b @ sep @ c"
proof -
  from assms obtain r where p: "partition_str sep s = Some (a, r)" and r: "split_nonempty sep r = [b, c]"
    by (auto split: option.splits)
  from split_two[OF r assms(2)] have "r = b @ sep @ c" by (simp add: partition_str_Some)
  with partition_str_Some[OF p] show ?thesis by simp
qed

lemma unpack2_Inr: "unpack2 xs = Inr (a, b) \<longleftrightarrow> xs = [a, b]"
  by (induction xs rule: unpack2.induct) auto

lemma unpack3_Inr: "unpack3 xs = Inr (a, b, c) \<longleftrightarrow> xs = [a, b, c]"
  by (induction xs rule: unpack3.induct) auto

lemma unpack2_Inl: "unpack2 xs = Inl e \<Longrightarrow> \<exists>m. e = ValueError m"
  by (induction xs rule: unpack2.induct) auto

lemma unpack3_Inl: "unpack3 xs = Inl e \<Longrightarrow> \<exists>m. e = ValueError m"
  by (induction xs rule: unpack3.induct) auto


lemma sum_then_Inr: "sum_then r f = Inr y \<longleftrightarrow> (\<exists>a. r = Inr a \<and> f a = Inr y)"
  by (cases r) (auto simp: sum_then_def)

lemma sum_then_Inl: "sum_then r f = Inl e \<longleftrightarrow> r = Inl e \<or> (\<exists>a. r = Inr a \<and> f a = Inl e)"
  by (cases r) (auto simp: sum_then_def)

lemma split_unpack2_Inr:
  "sep \<noteq> [] \<Longrightarrow> sum_then (str_split s sep) unpack2 = Inr (a, b) \<longleftrightarrow> split_nonempty sep s = [a, b]"
  by (simp add: sum_then_Inr str_split_def unpack2_Inr)

lemma split_unpack3_Inr:
  "sep \<noteq> [] \<Longrightarrow> sum_then (str_split s sep) unpack3 = Inr (a, b, c) \<longleftrightarrow> split_nonempty sep s = [a, b, c]"
  by (simp add: sum_then_Inr str_split_def unpack3_Inr)

lemma split_unpack2_Inl:
  "sum_then (str_split s sep) unpack2 = Inl e \<Longrightarrow> \<exists>m. e = ValueError m"
  by (auto simp: sum_then_Inl str_split_def dest: unpack2_Inl split: if_splits)

lemma split_unpack3_Inl:
  "sum_then (str_split s sep) unpack3 = Inl e \<Longrightarrow> \<exists>m. e = ValueError m"
  by (auto simp: sum_then_Inl str_split_def dest: unpack3_Inl split: if_splits)

lemma parse_conn_string_Inr:
  assumes "parse_conn_string d = Inr (c, u, pw, ip, db, port)"
  shows "\<exists>cd link port_db.
           split_nonempty ''://'' d = [c, cd] \<and> split_nonempty '':'' cd = [u, link, port_db] \<and>
           split_nonempty ''/'' port_db = [port, db] \<and> split_nonempty ''@'' link = [pw, ip]"
proof -
  from assms obtain c' cd where 1: "sum_then (str_split d ''://'') unpack2 = Inr (c', cd)"
    and r1: "sum_then (sum_then (str_split cd '':'') unpack3) (\<lambda>(username, link, port_db).
     sum_then (sum_then (str_split port_db ''/'') unpack2) (\<lambda>(port, db).
     sum_then (sum_then (str_split link ''@'') unpack2) (\<lambda>(password, ip).
     Inr (c', username, password, ip, db, port)))) = Inr (c, u, pw, ip, db, port)"
    unfolding parse_conn_string_def by (subst (asm) sum_then_Inr) auto
  from r1 obtain u' link port_db where 2: "sum_then (str_split cd '':'') unpack3 = Inr (u', link, port_db)"
    and r2: "sum_then (sum_then (str_split port_db ''/'') unpack2) (\<lambda>(port, db).
     sum_then (sum_then (str_split link ''@'') unpack2) (\<lambda>(password, ip).
     Inr (c', u', password, ip, db, port))) = Inr (c, u, pw, ip, db, port)"
    by (subst (asm) sum_then_Inr) auto
  from r2 obtain port' db' where 3: "sum_then (str_split port_db ''/'') unpack2 = Inr (port', db')"
    and r3: "sum_then (sum_then (str_split link ''@'') unpack2) (\<lambda>(password, ip).
     Inr (c', u', password, ip, db', port')) = Inr (c, u, pw, ip, db, port)"
    by (subst (asm) sum_then_Inr) auto
  from r3 obtain pw' ip' where 4: "sum_then (str_split link ''@'') unpack2 = Inr (pw', ip')"
    and r4: "(c', u', pw', ip', db', port') = (c, u, pw, ip, db, port)"
    by (subst (asm) sum_then_Inr) auto
  from 1 2 3 4 r4 show ?thesis
    by (simp add: split_unpack2_Inr split_unpack3_Inr)
qed

lemma parse_conn_string_Inl:
  assumes "parse_conn_string d = Inl e"
  shows "\<exists>m. e = ValueError m"
  using assms unfolding parse_conn_string_def
  by (auto simp: sum_then_Inl[where r="sum_then x y" for x y] dest: split_unpack2_Inl split_unpack3_Inl)


lemma parse_conn_string_form:
  assumes "parse_conn_string d = Inr (c, u, pw, ip, db, port)"
  shows "d = c @ ''://'' @ u @ '':'' @ pw @ ''@'' @ ip @ '':'' @ port @ ''/'' @ db"
proof -
  from parse_conn_string_Inr[OF assms] obtain cd link port_db where
    1: "split_nonempty ''://'' d = [c, cd]" and 2: "split_nonempty '':'' cd = [u, link, port_db]" and
    3: "split_nonempty ''/'' port_db = [port, db]" and 4: "split_nonempty ''@'' link = [pw, ip]"
    by blast
  from split_two[OF 1] have "partition_str ''://'' d = Some (c, cd)" by simp
  from partition_str_Some[OF this] have d: "d = c @ ''://'' @ cd" .
  from split_three[OF 2] have cd: "cd = u @ '':'' @ link @ '':'' @ port_db" by simp
  from split_two[OF 3] have "partition_str ''/'' port_db = Some (port, db)" by simp
  from partition_str_Some[OF this] have p: "port_db = port @ ''/'' @ db" .
  from split_two[OF 4] have "partition_str ''@'' link = Some (pw, ip)" by simp
  from partition_str_Some[OF this] have l: "link = pw @ ''@'' @ ip" .
  show ?thesis by (simp add: d cd p l)
qed

lemma parse_conn_string_protocol:
  assumes "parse_conn_string d = Inr (c, u, pw, ip, db, port)" and "d = p @ ''://'' @ q"
  shows "p = c"
proof -
  from parse_conn_string_Inr[OF assms(1)] obtain cd where "split_nonempty ''://'' d = [c, cd]"
    by blast
  from split_two[OF this] have ps: "partition_str ''://'' d = Some (c, cd)"
    and pn: "partition_str ''://'' cd = None" by simp_all
  from partition_str_Some[OF ps] have d: "d = c @ ''://'' @ cd" .
  from partition_str_leftmost[OF ps assms(2)] have le: "length c \<le> length p" .
  from d assms(2) have "c @ ''://'' @ cd = p @ ''://'' @ q" by simp
  with le obtain z where z: "p = c @ z" and r: "''://'' @ cd = z @ ''://'' @ q"
    by (auto simp: append_eq_append_conv2)
  have "z = []"
  proof (rule ccontr)
    assume nz: "z \<noteq> []"
    then consider a where "z = [a]" | a b where "z = [a, b]"
      | a b e z' where "z = a # b # e # z'"
      by (metis list.exhaust)
    then show False
    proof cases
      case 1
      with r show False by simp
    next
      case 2
      with r show False by simp
    next
      case 3
      with r have "cd = z' @ ''://'' @ q" by simp
      with partition_str_None[OF pn] show False by blast
    qed
  qed
  with z show ?thesis by simp
qed

text \<open>
  C2. On a gateway that is not connected, \<^verbatim>\<open>_connect\<close> refuses every descriptor that is
  empty, that is not of the form \<^verbatim>\<open><protocol>://<user>:<password>@<host>:<port>/<database>\<close>,
  or that has this form with a protocol other than \<^verbatim>\<open>mysql+mysqlconnector\<close>. The
  specification's \<^verbatim>\<open>ConfigurationError\<close> is, in the source, \<^verbatim>\<open>TypeError\<close> for the empty
  descriptor, \<^verbatim>\<open>ValueError\<close> from a failed unpacking for a malformed one and
  \<^verbatim>\<open>NotImplementedError\<close> for another protocol. The state returned is the one the call
  started from: no engine handle is set, the flag stays false and \<^verbatim>\<open>create_engine\<close> was not
  called.
\<close>

theorem connect_rejects:
  assumes "\<not> connected s"
    and "d = [] \<or> (\<forall>p. \<not> descriptor_form p d) \<or>
         (\<exists>p. p \<noteq> ''mysql+mysqlconnector'' \<and> descriptor_form p d)"
  shows "\<exists>e. connect api (PStr d) s = (Inl e, s) \<and>
           (e = TypeError ''conn_string must be a string connector.'' \<or>
            (\<exists>m. e = ValueError m) \<or>
            e = NotImplementedError ''Engine type not supported.'')"
proof (cases "d = []")
  case True
  with assms(1) show ?thesis by (simp add: connect_def)
next
  case False
  show ?thesis
  proof (cases "parse_conn_string d")
    case (Inl e)
    with False assms(1) parse_conn_string_Inl[OF Inl] show ?thesis
      by (auto simp: connect_def sum_then_def)
  next
    case (Inr t)
    then obtain c u pw ip db port where t: "parse_conn_string d = Inr (c, u, pw, ip, db, port)"
      by (cases t) auto
    from parse_conn_string_form[OF t] have f: "descriptor_form c d"
      unfolding descriptor_form_def by blast
    with assms(2) False obtain p where p: "p \<noteq> ''mysql+mysqlconnector''" "descriptor_form p d"
      by blast
    from p(2) obtain q where "d = p @ ''://'' @ q" unfolding descriptor_form_def by blast
    from parse_conn_string_protocol[OF t this] p(1) have "c \<noteq> ''mysql+mysqlconnector''" by simp
    with t False assms(1) show ?thesis
      by (simp add: connect_def sum_then_def)
  qed
qed

theorem connect_rejects_witness:
  "\<not> connected fresh \<and>
   (\<forall>p. \<not> descriptor_form p ''localhost'') \<and>
   descriptor_form ''oracle'' ''oracle://u:pw@h:1521/xe'' \<and>
   connect test_api (PStr []) fresh
     = (Inl (TypeError ''conn_string must be a string connector.''), fresh) \<and>
   connect test_api (PStr ''localhost'') fresh
     = (Inl (ValueError ''not enough values to unpack''), fresh) \<and>
   connect test_api (PStr ''oracle://u:pw@h:1521/xe'') fresh
     = (Inl (NotImplementedError ''Engine type not supported.''), fresh)"
proof -
  have n: "\<not> connected fresh"
    by (simp add: fresh_def)
  have m: "\<forall>p. \<not> descriptor_form p ''localhost''"
  proof (intro allI notI)
    fix p
    assume "descriptor_form p ''localhost''"
    then obtain q where "''localhost'' = p @ ''://'' @ q"
      unfolding descriptor_form_def by blast
    then have "CHR ''/'' \<in> set ''localhost''"
      by simp
    then show False
      by simp
  qed
  have o: "descriptor_form ''oracle'' ''oracle://u:pw@h:1521/xe''"
    unfolding descriptor_form_def
    by (intro exI[of _ "''u''"] exI[of _ "''pw''"] exI[of _ "''h''"] exI[of _ "''1521''"]
        exI[of _ "''xe''"]) simp
  have e1: "fst (connect test_api (PStr []) fresh)
      = Inl (TypeError ''conn_string must be a string connector.'')"
    by code_simp
  have e2: "fst (connect test_api (PStr ''localhost'') fresh)
      = Inl (ValueError ''not enough values to unpack'')"
    by code_simp
  have e3: "fst (connect test_api (PStr ''oracle://u:pw@h:1521/xe'') fresh)
      = Inl (NotImplementedError ''Engine type not supported.'')"
    by code_simp
  from connect_rejects[OF n, of "[]" test_api] e1
  have 1: "connect test_api (PStr []) fresh
     = (Inl (TypeError ''conn_string must be a string connector.''), fresh)"
    by auto
  from connect_rejects[OF n, of "''localhost''" test_api] m e2
  have 2: "connect test_api (PStr ''localhost'') fresh
     = (Inl (ValueError ''not enough values to unpack''), fresh)"
    by auto
  from o have o': "\<exists>p. p \<noteq> ''mysql+mysqlconnector'' \<and> descriptor_form p ''oracle://u:pw@h:1521/xe''"
    by (intro exI[of _ "''oracle''"]) simp
  from connect_rejects[OF n, of "''oracle://u:pw@h:1521/xe''" test_api] o' e3
  have 3: "connect test_api (PStr ''oracle://u:pw@h:1521/xe'') fresh
     = (Inl (NotImplementedError ''Engine type not supported.''), fresh)"
    by auto
  from n m o 1 2 3 show ?thesis by blast
qed

theorem connect_idempotent_witness:
  "connected linked \<and> connect test_api (PStr ''nonsense'') linked = (Inr (), linked) \<and>
   fst (connect test_api (PStr test_url) fresh) = Inr () \<and>
   connect test_api PNone (snd (connect test_api (PStr test_url) fresh))
     = (Inr (), snd (connect test_api (PStr test_url) fresh))"
proof -
  have c: "connected linked"
    by (simp add: linked_def)
  have f: "fst (connect test_api (PStr test_url) fresh) = Inr ()"
    by code_simp
  then have p: "connect test_api (PStr test_url) fresh
      = (Inr (), snd (connect test_api (PStr test_url) fresh))"
    by (metis prod.collapse)
  from c connect_idempotent[of linked test_api "PStr ''nonsense''"]
  have "connect test_api (PStr ''nonsense'') linked = (Inr (), linked)"
    by blast
  moreover from p connect_idempotent[where api=test_api and ?d1.0="PStr test_url" and s=fresh and ?d2.0=PNone]
  have "connect test_api PNone (snd (connect test_api (PStr test_url) fresh))
     = (Inr (), snd (connect test_api (PStr test_url) fresh))"
    by blast
  ultimately show ?thesis using c f by blast
qed

section \<open>Statements and type checks of the generic gateway\<close>


lemma then_py_Inl: "m s = (Inl e, s') \<Longrightarrow> then_py m f s = (Inl e, s')"
  by (simp add: then_py_def)

lemma connect_trace:
  "trace (snd (connect api c s)) = trace s \<or>
   (\<exists>url out. trace (snd (connect api c s)) = trace s @ [(CreateEngine url, out)])"
  by (auto simp: connect_def call_out_def split: if_splits sum.splits prod.splits pyval.splits)

lemma create_sql_other: "\<forall>t. table \<noteq> PFrame t \<Longrightarrow> create_sql table = Inr ''CREATE TABLE''"
  by (cases table) (simp_all add: create_sql_def)

text \<open>
  C10. \<^verbatim>\<open>create\<close> does not check the type of its table argument. For an argument that is
  not a frame the statement assembly is skipped, the text stays \<^verbatim>\<open>CREATE TABLE\<close>, and once
  \<^verbatim>\<open>_connect\<close> has returned this text is what is handed to \<^verbatim>\<open>engine.execute\<close>: the call is
  recorded in the trace, and \<^verbatim>\<open>create\<close> returns or raises as the engine does, with no
  \<^verbatim>\<open>TypeError\<close> of its own.
\<close>

theorem create_submits_bare_statement:
  assumes "\<forall>t. table \<noteq> PFrame t"
    and "connect api conn_string s = (Inr (), s1)" and "engine s1 = Some eng"
  shows "create_sql table = Inr ''CREATE TABLE'' \<and>
         create api table conn_string s =
           (case engine_execute api eng ''CREATE TABLE'' (world s1) of
              (r, w') \<Rightarrow>
                (map_sum id (\<lambda>rts. ()) r,
                 s1\<lparr>world := w', trace := trace s1 @ [(Execute ''CREATE TABLE'', outcome_of r)]\<rparr>))"
  using assms
  by (auto simp: create_def then_py_def lift_def ret_def create_sql_other engine_exec_def
      call_out_def split: prod.splits sum.splits)

theorem create_submits_bare_statement_witness:
  "(\<forall>t. PInt 7 \<noteq> PFrame t) \<and> connect test_api (PStr []) linked = (Inr (), linked) \<and>
   engine linked = Some (Engine test_url) \<and>
   fst (create test_api (PInt 7) (PStr []) linked) = Inr () \<and>
   trace (snd (create test_api (PInt 7) (PStr []) linked)) = [(Execute ''CREATE TABLE'', Returned)]"
proof -
  have a: "\<forall>t. PInt 7 \<noteq> PFrame t"
    by simp
  have b: "connect test_api (PStr []) linked = (Inr (), linked)"
    by (simp add: connect_def linked_def)
  have c: "engine linked = Some (Engine test_url)"
    by (simp add: linked_def)
  have d: "engine_execute test_api (Engine test_url) ''CREATE TABLE'' (world linked)
      = (Inr (test_result 1), world linked)"
    by (simp add: test_api_def)
  have t: "trace linked = []"
    by (simp add: linked_def)
  from create_submits_bare_statement[OF a b c] d t show ?thesis
    using a b c by (simp add: outcome_of_def)
qed

text \<open>
  C9. When the key-column argument \<^verbatim>\<open>index\<close> of \<^verbatim>\<open>update\<close> is not a list (\<^verbatim>\<open>None\<close>, the
  default, included), \<^verbatim>\<open>update\<close> on a frame returns 0 in the state that \<^verbatim>\<open>_connect\<close> left:
  on a connected gateway the state is unchanged altogether, and in every case the trace
  holds no executed statement that it did not hold before.
\<close>

theorem update_without_key_list:
  assumes "\<forall>ix. index \<noteq> PList ix"
  shows "(connect api conn_string s = (Inr (), s1) \<longrightarrow>
            update_tbl api (PFrame t) conn_string index s = (Inr 0, s1)) \<and>
         (connected s \<longrightarrow> update_tbl api (PFrame t) conn_string index s = (Inr 0, s)) \<and>
         (\<forall>sql out. (Execute sql, out) \<in> set (trace (snd (update_tbl api (PFrame t) conn_string index s)))
            \<longrightarrow> (Execute sql, out) \<in> set (trace s))"
proof -
  have u: "update_tbl api (PFrame t) conn_string index s =
     (case connect api conn_string s of (Inl e, s') \<Rightarrow> (Inl e, s') | (Inr a, s') \<Rightarrow> (Inr 0, s'))"
    using assms by (cases index) (simp_all add: update_tbl_def then_py_def ret_def split: prod.splits sum.splits)
  have "snd (update_tbl api (PFrame t) conn_string index s) = snd (connect api conn_string s)"
    unfolding u by (simp split: prod.splits sum.splits)
  with connect_trace[of api conn_string s]
  have "\<forall>sql out. (Execute sql, out) \<in> set (trace (snd (update_tbl api (PFrame t) conn_string index s)))
            \<longrightarrow> (Execute sql, out) \<in> set (trace s)"
    by auto
  moreover have "connect api conn_string s = (Inr (), s1) \<longrightarrow>
            update_tbl api (PFrame t) conn_string index s = (Inr 0, s1)"
    unfolding u by simp
  moreover have "connected s \<longrightarrow> update_tbl api (PFrame t) conn_string index s = (Inr 0, s)"
    unfolding u by (simp add: connect_def)
  ultimately show ?thesis by blast
qed

theorem update_without_key_list_witness:
  "(\<forall>ix. PNone \<noteq> PList ix) \<and> connected linked \<and>
   update_tbl test_api (PFrame people) (PStr []) PNone linked = (Inr 0, linked)"
proof -
  have a: "\<forall>ix. PNone \<noteq> PList ix"
    by simp
  have c: "connected linked"
    by (simp add: linked_def)
  from update_without_key_list[OF a, of test_api "PStr []" linked linked people] c
  show ?thesis
    using a by blast
qed

lemma select_from_other:
  "\<forall>t. table \<noteq> PFrame t \<Longrightarrow> \<forall>n. table \<noteq> PStr n \<Longrightarrow>
   select_from table = Inl (TypeError ''table must be a string or DataFrame.'')"
  by (cases table) (simp_all add: select_from_def)

text \<open>
  C7, as the source has it. Every operation calls \<^verbatim>\<open>_connect\<close> before it looks at its
  table argument. For an argument of the wrong shape (\<^verbatim>\<open>insert\<close>, \<^verbatim>\<open>update\<close>, \<^verbatim>\<open>bulk_insert\<close>:
  not a frame; \<^verbatim>\<open>select\<close>: neither a string nor a frame) the operation is \<^verbatim>\<open>_connect\<close>
  followed at once by \<^verbatim>\<open>raise TypeError\<close>: no statement is executed and no file is written.
  On a connected gateway the state is left as it was. On a gateway that is not connected
  the effect and the outcome of \<^verbatim>\<open>_connect\<close> come first.
\<close>

theorem wrong_shape_raises_after_connect:
  assumes "\<forall>t. table \<noteq> PFrame t"
  shows "insert_tbl api table c rows s
           = then_py (connect api c) (\<lambda>u. throw (TypeError ''table must be a DataFrame.'')) s \<and>
         update_tbl api table c index s
           = then_py (connect api c) (\<lambda>u. throw (TypeError ''table must be a DataFrame.'')) s \<and>
         bulk_insert api table c s
           = then_py (connect api c) (\<lambda>u. throw (TypeError ''table must be a DataFrame.'')) s \<and>
         ((\<forall>n. table \<noteq> PStr n) \<longrightarrow>
            select api table c conds s
              = then_py (connect api c)
                  (\<lambda>u. throw (TypeError ''table must be a string or DataFrame.'')) s) \<and>
         (connected s \<longrightarrow>
            insert_tbl api table c rows s = (Inl (TypeError ''table must be a DataFrame.''), s) \<and>
            update_tbl api table c index s = (Inl (TypeError ''table must be a DataFrame.''), s) \<and>
            bulk_insert api table c s = (Inl (TypeError ''table must be a DataFrame.''), s) \<and>
            ((\<forall>n. table \<noteq> PStr n) \<longrightarrow>
               select api table c conds s
                 = (Inl (TypeError ''table must be a string or DataFrame.''), s)))"
proof -
  have i: "insert_tbl api table c rows s
           = then_py (connect api c) (\<lambda>u. throw (TypeError ''table must be a DataFrame.'')) s"
    using assms by (cases table) (simp_all add: insert_tbl_def)
  have u: "update_tbl api table c index s
           = then_py (connect api c) (\<lambda>u. throw (TypeError ''table must be a DataFrame.'')) s"
    using assms by (cases table) (simp_all add: update_tbl_def)
  have b: "bulk_insert api table c s
           = then_py (connect api c) (\<lambda>u. throw (TypeError ''table must be a DataFrame.'')) s"
    using assms by (cases table) (simp_all add: bulk_insert_def)
  have q: "select api table c conds s
              = then_py (connect api c)
                  (\<lambda>u. throw (TypeError ''table must be a string or DataFrame.'')) s"
    if "\<forall>n. table \<noteq> PStr n"
    using select_from_other[OF assms that]
    by (simp add: select_def then_py_def lift_def throw_def split: prod.splits sum.splits)
  have k: "then_py (connect api c) (\<lambda>u. throw e) s = (Inl e, s)" if "connected s" for e :: exn
    using that by (simp add: then_py_def connect_def throw_def)
  show ?thesis
    by (intro conjI impI) (simp_all add: i u b q k)
qed

text \<open>
  C7 as stated fails on a gateway that is not yet connected: \<^verbatim>\<open>select(42, url)\<close> with a
  valid descriptor raises \<^verbatim>\<open>TypeError\<close> only after \<^verbatim>\<open>_connect\<close> has set the engine handle and
  the flag, and \<^verbatim>\<open>insert(42, 'oracle://...')\<close> raises the \<^verbatim>\<open>NotImplementedError\<close> of
  \<^verbatim>\<open>_connect\<close>, not a \<^verbatim>\<open>TypeError\<close>.
\<close>

theorem wrong_shape_changes_state:
  "fst (select test_api (PInt 42) (PStr test_url) CondOther fresh)
     = Inl (TypeError ''table must be a string or DataFrame.'') \<and>
   \<not> connected fresh \<and> engine fresh = None \<and>
   connected (snd (select test_api (PInt 42) (PStr test_url) CondOther fresh)) \<and>
   engine (snd (select test_api (PInt 42) (PStr test_url) CondOther fresh))
     = Some (Engine test_url) \<and>
   fst (insert_tbl test_api (PInt 42) (PStr ''oracle://u:pw@h:1521/xe'') PNone fresh)
     = Inl (NotImplementedError ''Engine type not supported.'')"
  by code_simp

theorem wrong_shape_raises_after_connect_witness:
  "(\<forall>t. PInt 42 \<noteq> PFrame t) \<and> (\<forall>n. PInt 42 \<noteq> PStr n) \<and> connected linked \<and>
   insert_tbl test_api (PInt 42) PNone PNone linked
     = (Inl (TypeError ''table must be a DataFrame.''), linked) \<and>
   select test_api (PInt 42) PNone CondOther linked
     = (Inl (TypeError ''table must be a string or DataFrame.''), linked)"
proof -
  have a: "\<forall>t. PInt 42 \<noteq> PFrame t" and n: "\<forall>n. PInt 42 \<noteq> PStr n"
    by simp_all
  have c: "connected linked"
    by (simp add: linked_def)
  from wrong_shape_raises_after_connect[OF a, of test_api PNone PNone linked PNone CondOther] n c
  show ?thesis
    using a by blast
qed

section \<open>Inserting rows\<close>

lemma engine_exec_Some:
  "engine s = Some eng \<Longrightarrow>
   engine_exec api sql s =
     (case engine_execute api eng sql (world s) of
        (r, w') \<Rightarrow> (r, s\<lparr>world := w', trace := trace s @ [(Execute sql, outcome_of r)]\<rparr>))"
  by (simp add: engine_exec_def call_out_def)

lemma engine_exec_keeps:
  "engine (snd (engine_exec api sql s)) = engine s"
  "connected (snd (engine_exec api sql s)) = connected s"
  "files (snd (engine_exec api sql s)) = files s"
  by (auto simp: engine_exec_def call_out_def split: option.splits prod.splits)

lemma engine_exec_trace:
  "engine s = Some eng \<Longrightarrow>
   trace (snd (engine_exec api sql s)) = trace s @ [(Execute sql, outcome_of (fst (engine_exec api sql s)))]"
  by (simp add: engine_exec_Some split: prod.splits)

lemma check_for_table_connected:
  "connected s \<Longrightarrow> engine s = Some eng \<Longrightarrow>
   check_for_table api name c s =
     (case has_table api eng name (world s) of
        (r, w') \<Rightarrow> (r, s\<lparr>world := w', trace := trace s @ [(HasTable name, outcome_of r)]\<rparr>))"
  by (simp add: check_for_table_def then_py_def connect_def call_out_def)

lemma create_connected:
  "connected s \<Longrightarrow>
   create api table c s =
     (case create_sql table of
        Inl e \<Rightarrow> (Inl e, s)
      | Inr sql \<Rightarrow> (case engine_exec api sql s of
                      (Inl e, s') \<Rightarrow> (Inl e, s')
                    | (Inr rts, s') \<Rightarrow> (Inr (), s')))"
  by (simp add: create_def then_py_def connect_def lift_def ret_def split: sum.splits prod.splits)

lemma startswith_append: "startswith u p \<Longrightarrow> startswith (u @ v) p"
  by (auto simp: startswith_iff)

lemma startswith_take: "startswith u p \<Longrightarrow> length p \<le> k \<Longrightarrow> startswith (take k u) p"
  by (auto simp: startswith_iff)

lemma insert_labels_append: "insert_labels ls sql = sql @ concat (map (\<lambda>l. l @ '', '') ls)"
  by (induction ls arbitrary: sql) simp_all

lemma insert_values_append:
  "insert_values vs sql = sql @ concat (map (\<lambda>v. sql_literal v @ '', '') vs)"
  by (induction vs arbitrary: sql) (simp_all add: sql_literal_def split: cell.splits)

lemma insert_head_starts: "startswith (insert_head t) ''INSERT INTO''"
proof -
  have "startswith (take (length (''INSERT INTO'' @ r) - 2) (''INSERT INTO'' @ r)) ''INSERT INTO''"
    if "2 \<le> length r" for r
    using that by (intro startswith_take) (simp_all add: startswith_iff)
  from this[of "'' '' @ df_name t @ '' ('' @ concat (map (\<lambda>l. l @ '', '') (labels t))"]
  show ?thesis
    unfolding insert_head_def Let_def insert_labels_append
    by (intro startswith_append) simp
qed

lemma insert_statement_starts:
  assumes "startswith sql ''INSERT INTO''"
  shows "startswith (insert_statement sql row) ''INSERT INTO''"
proof -
  from assms obtain r where r: "sql = ''INSERT INTO'' @ r"
    by (auto simp: startswith_iff)
  have "startswith (take (length (''INSERT INTO'' @ q) - 2) (''INSERT INTO'' @ q)) ''INSERT INTO''"
    if "2 \<le> length q" for q
    using that by (intro startswith_take) (simp_all add: startswith_iff)
  from this[of "r @ '' VALUES ('' @ concat (map (\<lambda>v. sql_literal v @ '', '') row)"]
  show ?thesis
    unfolding insert_statement_def Let_def insert_values_append r
    by (intro startswith_append) simp
qed

lemma insert_loop_trace:
  "engine s = Some eng \<Longrightarrow>
   \<exists>evs. trace (snd (insert_loop api sql rows rs acc s)) = trace s @ evs \<and>
         fst ` set evs \<subseteq> (\<lambda>row. Execute (insert_statement sql row)) ` snd ` set rs"
proof (induction rs arbitrary: acc s)
  case Nil
  then show ?case by simp
next
  case (Cons ir rs)
  obtain index row where ir: "ir = (index, row)"
    by (cases ir)
  show ?case
  proof (cases "row_selected index rows")
    case (Inl e)
    then show ?thesis by (simp add: ir)
  next
    case (Inr sel)
    show ?thesis
    proof (cases sel)
      case False
      from Cons.IH[OF Cons.prems, of acc] obtain evs where
        "trace (snd (insert_loop api sql rows rs acc s)) = trace s @ evs"
        "fst ` set evs \<subseteq> (\<lambda>row. Execute (insert_statement sql row)) ` snd ` set rs"
        by blast
      with Inr False show ?thesis by (auto simp: ir)
    next
      case True
      obtain r s' where x: "engine_exec api (insert_statement sql row) s = (r, s')"
        by (cases "engine_exec api (insert_statement sql row) s")
      with engine_exec_keeps(1)[of api "insert_statement sql row" s] Cons.prems
      have e': "engine s' = Some eng" by simp
      from x engine_exec_trace[OF Cons.prems, of api "insert_statement sql row"]
      have t': "trace s' = trace s @ [(Execute (insert_statement sql row), outcome_of r)]"
        by simp
      show ?thesis
      proof (cases r)
        case (Inl e)
        with \<open>row_selected index rows = Inr sel\<close> True x t' show ?thesis
          by (simp add: ir)
      next
        case (Inr rts)
        from Cons.IH[OF e', of "acc + rowcount rts"] obtain evs where
          "trace (snd (insert_loop api sql rows rs (acc + rowcount rts) s')) = trace s' @ evs"
          "fst ` set evs \<subseteq> (\<lambda>row. Execute (insert_statement sql row)) ` snd ` set rs"
          by blast
        with \<open>row_selected index rows = Inr sel\<close> True x t' Inr show ?thesis
          by (auto simp: ir)
      qed
    qed
  qed
qed


lemma insert_not_create:
  "startswith q ''INSERT INTO'' \<Longrightarrow> \<not> startswith q ''CREATE TABLE''"
  by (auto simp: startswith_iff)

text \<open>
  C4. Once \<^verbatim>\<open>_connect\<close> has returned, the first thing \<^verbatim>\<open>insert\<close> does with a frame is the
  existence check \<^verbatim>\<open>has_table\<close> for the frame's name. When the check answers that the table
  exists, no statement executed by this call begins with \<^verbatim>\<open>CREATE TABLE\<close>; this holds in any
  state, so also for a second \<^verbatim>\<open>insert\<close> after a first one. When it answers that the table
  is missing, the statement of \<^verbatim>\<open>create\<close> is the next one handed to the engine.
\<close>

theorem insert_creates_only_missing_table:
  assumes "connect api c s = (Inr (), s1)" and "engine s1 = Some eng"
  shows "\<exists>evs. trace (snd (insert_tbl api (PFrame t) c rows s))
             = trace s1 @ (HasTable (df_name t),
                           outcome_of (fst (has_table api eng (df_name t) (world s1)))) # evs \<and>
           (fst (has_table api eng (df_name t) (world s1)) = Inr True \<longrightarrow>
              (\<forall>sql out. (Execute sql, out) \<in> set evs \<longrightarrow> \<not> startswith sql ''CREATE TABLE'')) \<and>
           (fst (has_table api eng (df_name t) (world s1)) = Inr False \<longrightarrow>
              (\<forall>sql. create_sql (PFrame t) = Inr sql \<longrightarrow>
                 (\<exists>out evs'. evs = (Execute sql, out) # evs')))"
proof -
  obtain r w' where h: "has_table api eng (df_name t) (world s1) = (r, w')"
    by (cases "has_table api eng (df_name t) (world s1)")
  define s2 where "s2 = s1\<lparr>world := w', trace := trace s1 @ [(HasTable (df_name t), outcome_of r)]\<rparr>"
  have c1: "connected s1"
    using assms(1) by (rule connect_returns_connected)
  have chk: "check_for_table api (df_name t) (PStr []) s1 = (r, s2)"
    using check_for_table_connected[OF c1 assms(2), of api "df_name t" "PStr []"] h
    by (simp add: s2_def)
  have e2: "engine s2 = Some eng" and c2: "connected s2"
    and t2: "trace s2 = trace s1 @ [(HasTable (df_name t), outcome_of r)]"
    using assms(2) c1 by (simp_all add: s2_def)
  have ins: "insert_tbl api (PFrame t) c rows s =
      then_py (check_for_table api (df_name t) (PStr [])) (\<lambda>exists.
        then_py (if \<not> exists then create api (PFrame t) (PStr []) else ret ()) (\<lambda>_.
        insert_loop api (insert_head t) rows (iterrows api t) 0)) s1"
    using assms(1) by (simp add: insert_tbl_def then_py_def)
  have loop: "\<exists>evs. trace (snd (insert_loop api (insert_head t) rows (iterrows api t) 0 s')) = trace s' @ evs \<and>
      (\<forall>sql out. (Execute sql, out) \<in> set evs \<longrightarrow> \<not> startswith sql ''CREATE TABLE'')"
    if "engine s' = Some eng" for s'
  proof -
    from insert_loop_trace[OF that, of api "insert_head t" rows "iterrows api t" 0] obtain evs where
      ev: "trace (snd (insert_loop api (insert_head t) rows (iterrows api t) 0 s')) = trace s' @ evs"
      and sub: "fst ` set evs \<subseteq> (\<lambda>row. Execute (insert_statement (insert_head t) row)) ` snd ` set (iterrows api t)"
      by blast
    have "\<not> startswith sql ''CREATE TABLE''" if "(Execute sql, out) \<in> set evs" for sql out
    proof -
      from that have "Execute sql \<in> fst ` set evs" by force
      with sub obtain row where "sql = insert_statement (insert_head t) row" by auto
      with insert_statement_starts[OF insert_head_starts] show ?thesis
        by (simp add: insert_not_create)
    qed
    with ev show ?thesis by blast
  qed
  show ?thesis
  proof (cases r)
    case (Inl e)
    with ins chk t2 h show ?thesis
      by (simp add: then_py_def)
  next
    case (Inr b)
    show ?thesis
    proof (cases b)
      case True
      with Inr ins chk have "insert_tbl api (PFrame t) c rows s
          = insert_loop api (insert_head t) rows (iterrows api t) 0 s2"
        by (simp add: then_py_def ret_def)
      with loop[OF e2] t2 h Inr True show ?thesis
        by auto
    next
      case False
      show ?thesis
      proof (cases "create_sql (PFrame t)")
        case (Inl e)
        with Inr False ins chk create_connected[OF c2, of api "PFrame t" "PStr []"]
        have "insert_tbl api (PFrame t) c rows s = (Inl e, s2)"
          by (simp add: then_py_def)
        with t2 h Inr False Inl show ?thesis
          by simp
      next
        case sq: (Inr sql)
        obtain r' s3 where x: "engine_exec api sql s2 = (r', s3)"
          by (cases "engine_exec api sql s2")
        from x engine_exec_keeps(1)[of api sql s2] e2 have e3: "engine s3 = Some eng"
          by simp
        from x engine_exec_trace[OF e2, of api sql]
        have t3: "trace s3 = trace s2 @ [(Execute sql, outcome_of r')]"
          by simp
        show ?thesis
        proof (cases r')
          case (Inl e)
          with Inr False ins chk create_connected[OF c2, of api "PFrame t" "PStr []"] sq x
          have "insert_tbl api (PFrame t) c rows s = (Inl e, s3)"
            by (simp add: then_py_def)
          with t2 t3 h Inr False sq show ?thesis
            by simp
        next
          case rr: (Inr rts)
          with Inr False ins chk create_connected[OF c2, of api "PFrame t" "PStr []"] sq x
          have "insert_tbl api (PFrame t) c rows s
              = insert_loop api (insert_head t) rows (iterrows api t) 0 s3"
            by (simp add: then_py_def)
          with loop[OF e3] t2 t3 h Inr False sq show ?thesis
            by auto
        qed
      qed
    qed
  qed
qed

theorem insert_creates_only_missing_table_witness:
  "fst (insert_tbl test_api (PFrame people) (PStr test_url) PNone fresh) = Inr 2 \<and>
   connect test_api (PStr []) once = (Inr (), once) \<and>
   engine once = Some (Engine test_url) \<and>
   fst (has_table test_api (Engine test_url) (df_name people) (world once)) = Inr True \<and>
   (\<exists>evs. trace (snd (insert_tbl test_api (PFrame people) (PStr []) PNone once))
            = trace once @ (HasTable (df_name people), Returned) # evs \<and>
          (\<forall>sql out. (Execute sql, out) \<in> set evs \<longrightarrow> \<not> startswith sql ''CREATE TABLE'')) \<and>
   connect test_api (PStr []) linked = (Inr (), linked) \<and>
   fst (has_table test_api (Engine test_url) (df_name people) (world (linked\<lparr>world := []\<rparr>))) = Inr False \<and>
   (\<exists>out evs'. trace (snd (insert_tbl test_api (PFrame people) (PStr []) PNone (linked\<lparr>world := []\<rparr>)))
            = trace (linked\<lparr>world := []\<rparr>) @ (HasTable (df_name people), Returned)
                # (Execute ''CREATE TABLE t (id INT, name VARCHAR(255))'', out) # evs')"
proof -
  have r: "fst (insert_tbl test_api (PFrame people) (PStr test_url) PNone fresh) = Inr 2"
    by code_simp
  have "connected once"
    unfolding once_def by code_simp
  then have c: "connect test_api (PStr []) once = (Inr (), once)"
    by (rule connect_connected)
  have e: "engine once = Some (Engine test_url)"
    unfolding once_def by code_simp
  have h: "fst (has_table test_api (Engine test_url) (df_name people) (world once)) = Inr True"
    unfolding once_def by code_simp
  have o: "outcome_of (Inr True :: exn + bool) = Returned" "outcome_of (Inr False :: exn + bool) = Returned"
    by (simp_all add: outcome_of_def)
  from insert_creates_only_missing_table[OF c e, of people PNone] h o
  have 1: "\<exists>evs. trace (snd (insert_tbl test_api (PFrame people) (PStr []) PNone once))
            = trace once @ (HasTable (df_name people), Returned) # evs \<and>
          (\<forall>sql out. (Execute sql, out) \<in> set evs \<longrightarrow> \<not> startswith sql ''CREATE TABLE'')"
    by auto
  have c': "connect test_api (PStr []) (linked\<lparr>world := []\<rparr>) = (Inr (), linked\<lparr>world := []\<rparr>)"
    by (rule connect_connected) (simp add: linked_def)
  have c2: "connect test_api (PStr []) linked = (Inr (), linked)"
    by (rule connect_connected) (simp add: linked_def)
  have e': "engine (linked\<lparr>world := []\<rparr>) = Some (Engine test_url)"
    by (simp add: linked_def)
  have h': "fst (has_table test_api (Engine test_url) (df_name people) (world (linked\<lparr>world := []\<rparr>))) = Inr False"
    by (simp add: test_api_def)
  have q: "create_sql (PFrame people) = Inr ''CREATE TABLE t (id INT, name VARCHAR(255))''"
    by code_simp
  from insert_creates_only_missing_table[OF c' e', of people PNone] h' o q
  have 2: "\<exists>out evs'. trace (snd (insert_tbl test_api (PFrame people) (PStr []) PNone (linked\<lparr>world := []\<rparr>)))
            = trace (linked\<lparr>world := []\<rparr>) @ (HasTable (df_name people), Returned)
                # (Execute ''CREATE TABLE t (id INT, name VARCHAR(255))'', out) # evs'"
    by auto
  from r c e h 1 c2 h' 2 show ?thesis
    by blast
qed













section \<open>Bulk loading\<close>








section \<open>Properties of the schema-aware gateway\<close>













section \<open>The loader\<close>

text \<open>
  What \<^verbatim>\<open>load_data\<close> does when both files can be written and \<^verbatim>\<open>shlex.split\<close> has cut the
  command line: it writes the control file and the data file and calls
  \<^verbatim>\<open>subprocess.Popen\<close> with the process environment in which \<^verbatim>\<open>PATH\<close> and
  \<^verbatim>\<open>LD_LIBRARY_PATH\<close> are overridden. This call is the last thing it does with the outside
  world: there is no wait and no look at an exit status. Once the loader is launched
  \<^verbatim>\<open>load_data\<close> returns \<^verbatim>\<open>None\<close> and logs nothing. A \<^verbatim>\<open>SubprocessError\<close> of \<^verbatim>\<open>Popen\<close> is
  logged and swallowed; any other exception of \<^verbatim>\<open>Popen\<close> is raised to the caller and not
  logged.
\<close>

lemma map_of_dict_set: "map_of (dict_set k v kvs) = (map_of kvs)(k \<mapsto> v)"
  by (induction kvs) (auto simp: fun_upd_twist)

lemma loader_env_lookup:
  "map_of (loader_env a env) =
     (map_of env)(''PATH'' \<mapsto> arg_os_path a, ''LD_LIBRARY_PATH'' \<mapsto> arg_os_ld_library_path a)"
  by (simp add: loader_env_def map_of_dict_set)

lemma popen_try_cases:
  assumes "subprocess_popen api args env (world q) = (r, w')"
    and "popen_try api args env q = (out, s')"
  shows "trace s' = trace q @ [(Popen args env, outcome_of r)] \<and> world s' = w' \<and> files s' = files q \<and>
         (\<forall>u. r = Inr u \<longrightarrow> out = Inr () \<and> logged s' = logged q) \<and>
         (\<forall>m. r = Inl (SubprocessError m) \<longrightarrow>
            out = Inr () \<and> logged s' = logged q @ [LogError (SubprocessError m)]) \<and>
         (\<forall>e. r = Inl e \<longrightarrow> (\<forall>m. e \<noteq> SubprocessError m) \<longrightarrow> out = Inl e \<and> logged s' = logged q)"
proof (cases r)
  case (Inr u)
  with assms show ?thesis
    by (auto simp: popen_try_def call_out_def)
next
  case (Inl e)
  with assms show ?thesis
    by (cases e) (auto simp: popen_try_def call_out_def log_error_def)
qed

lemma load_data_launch:
  assumes "writable s (arg_output_path a @ df_name (arg_table a) @ ''.ctl'')"
    and "writable s (arg_output_path a @ df_name (arg_table a) @ ''.dat'')"
    and "shlex_split api (os_command a) = Inr args"
    and "subprocess_popen api args (loader_env a (environ s)) (world s) = (r, w')"
    and "load_data api a s = (out, s')"
  shows "trace s' = trace s @
           [(WriteFile (arg_output_path a @ df_name (arg_table a) @ ''.ctl'') (ctl_header a), Returned),
            (WriteFile (arg_output_path a @ df_name (arg_table a) @ ''.dat'')
               (frame_to_csv api (arg_table a) '';'' True), Returned),
            (Popen args (loader_env a (environ s)), outcome_of r)] \<and>
         map_of (loader_env a (environ s)) =
           (map_of (environ s))(''PATH'' \<mapsto> arg_os_path a,
                                ''LD_LIBRARY_PATH'' \<mapsto> arg_os_ld_library_path a) \<and>
         world s' = w' \<and>
         (\<forall>u. r = Inr u \<longrightarrow> out = Inr () \<and> logged s' = logged s) \<and>
         (\<forall>m. r = Inl (SubprocessError m) \<longrightarrow>
            out = Inr () \<and> logged s' = logged s @ [LogError (SubprocessError m)]) \<and>
         (\<forall>e. r = Inl e \<longrightarrow> (\<forall>m. e \<noteq> SubprocessError m) \<longrightarrow> out = Inl e \<and> logged s' = logged s)"
proof -
  let ?ctl = "arg_output_path a @ df_name (arg_table a) @ ''.ctl''"
  let ?dat = "arg_output_path a @ df_name (arg_table a) @ ''.dat''"
  let ?csv = "frame_to_csv api (arg_table a) '';'' True"
  define q where "q = s\<lparr>files := (files s)(?ctl \<mapsto> ctl_header a, ?dat \<mapsto> ?csv),
      trace := trace s @ [(WriteFile ?ctl (ctl_header a), Returned), (WriteFile ?dat ?csv, Returned)]\<rparr>"
  have l: "load_data api a s = popen_try api args (loader_env a (environ s)) q"
    using assms(1,2,3)
    by (simp add: load_data_def then_py_def write_file_def lift_def Let_def q_def)
  have wq: "world q = world s" and lq: "logged q = logged s"
    and tq: "trace q = trace s @ [(WriteFile ?ctl (ctl_header a), Returned), (WriteFile ?dat ?csv, Returned)]"
    by (simp_all add: q_def)
  from assms(4) wq have x: "subprocess_popen api args (loader_env a (environ s)) (world q) = (r, w')"
    by simp
  from assms(5) l have y: "popen_try api args (loader_env a (environ s)) q = (out, s')"
    by simp
  from popen_try_cases[OF x y] tq lq show ?thesis
    by (simp add: loader_env_lookup)
qed

text \<open>
  C6 does not hold of the code when the loader cannot be launched. With a search path
  that does not hold \<^verbatim>\<open>sqlldr\<close>, \<^verbatim>\<open>Popen(['sqlldr', 'test/password@localhost:1521/xe',
  'control=/tmp/t.ctl', 'log=/tmp/t.log', 'bad=/tmp/t.bad'], env=env)\<close> raises
  \<^verbatim>\<open>FileNotFoundError\<close>. This is an \<^verbatim>\<open>OSError\<close> and no \<^verbatim>\<open>subprocess.SubprocessError\<close>, so the
  \<^verbatim>\<open>except\<close> clause of line 218 does not catch it: \<^verbatim>\<open>load_data\<close> raises it to the caller and
  logs nothing, where a \<^verbatim>\<open>SubprocessError\<close> of \<^verbatim>\<open>Popen\<close> is logged and \<^verbatim>\<open>load_data\<close> returns.
  With the loader on the search path \<^verbatim>\<open>load_data\<close> returns and logs nothing; with an
  output directory that cannot be written to it raises at the control file, before any
  launch.
\<close>

theorem load_data_launch_failure_escapes:
  "fst (load_data ora_ok (demo_load\<lparr>arg_os_path := ''/usr/local/bin:/usr/bin:/bin''\<rparr>) start)
     = Inl (OSError ''No such file or directory: sqlldr'') \<and>
   logged (snd (load_data ora_ok (demo_load\<lparr>arg_os_path := ''/usr/local/bin:/usr/bin:/bin''\<rparr>) start)) = [] \<and>
   last (trace (snd (load_data ora_ok (demo_load\<lparr>arg_os_path := ''/usr/local/bin:/usr/bin:/bin''\<rparr>) start)))
     = (Popen [''sqlldr'', ''test/password@localhost:1521/xe'', ''control=/tmp/t.ctl'',
               ''log=/tmp/t.log'', ''bad=/tmp/t.bad'']
              [(''HOME'', ''/root''), (''PATH'', ''/usr/local/bin:/usr/bin:/bin''),
               (''LD_LIBRARY_PATH'', ''/opt/oracle/instantclient_12_2'')],
        Raised (OSError ''No such file or directory: sqlldr'')) \<and>
   fst (load_data (ora_ok\<lparr>subprocess_popen :=
          (\<lambda>args env w. (Inl (SubprocessError ''Exception occurred in preexec_fn.''), w))\<rparr>) demo_load start)
     = Inr () \<and>
   logged (snd (load_data (ora_ok\<lparr>subprocess_popen :=
          (\<lambda>args env w. (Inl (SubprocessError ''Exception occurred in preexec_fn.''), w))\<rparr>) demo_load start))
     = [LogError (SubprocessError ''Exception occurred in preexec_fn.'')] \<and>
   fst (load_data ora_ok demo_load start) = Inr () \<and>
   logged (snd (load_data ora_ok demo_load start)) = [] \<and>
   fst (load_data ora_ok (demo_load\<lparr>arg_output_path := ''/data/out/''\<rparr>) start)
     = Inl (OSError ''cannot open file for writing'') \<and>
   map fst (trace (snd (load_data ora_ok (demo_load\<lparr>arg_output_path := ''/data/out/''\<rparr>) start)))
     = [WriteFile ''/data/out/t.ctl'' (ctl_header (demo_load\<lparr>arg_output_path := ''/data/out/''\<rparr>))]"
  by code_simp

end
